theory Spec2Isabelle
  imports Main
begin

section \<open>JavaScript values\<close>

text \<open>
  The component reads its inputs from untyped JavaScript objects: the global
  \<open>interfaceConfig\<close>, three slices of the Redux store and the props handed in by the
  caller. The Flow annotations promise booleans and (optional) strings, so a field is
  modelled as one of \<open>undefined\<close>, \<open>null\<close>, a boolean or a string. Every test of the
  source (\<open>if (x)\<close>, \<open>x ? a : b\<close>, \<open>!x\<close>, \<open>x && y\<close>, \<open>x || y\<close>) goes through
  JavaScript's truthiness, and \<open>&&\<close> and \<open>||\<close> return one of their operands, not a
  boolean.
\<close>

datatype jsval = JUndefined | JNull | JBool bool | JStr string

fun truthy :: "jsval \<Rightarrow> bool" where
  "truthy JUndefined = False"
| "truthy JNull = False"
| "truthy (JBool b) = b"
| "truthy (JStr s) = (s \<noteq> [])"

definition js_not :: "jsval \<Rightarrow> jsval" where
  "js_not v = JBool (\<not> truthy v)"

definition js_and :: "jsval \<Rightarrow> jsval \<Rightarrow> jsval" where
  "js_and a b = (if truthy a then b else a)"

definition js_or :: "jsval \<Rightarrow> jsval \<Rightarrow> jsval" where
  "js_or a b = (if truthy a then a else b)"

text \<open>The conversion a template literal \<open>`${x}`\<close> applies to \<open>x\<close>.\<close>

fun toString :: "jsval \<Rightarrow> string" where
  "toString JUndefined = ''undefined''"
| "toString JNull = ''null''"
| "toString (JBool b) = (if b then ''true'' else ''false'')"
| "toString (JStr s) = s"

text \<open>
  Reading a property of \<open>undefined\<close> (here: destructuring a store slice that is not
  there) throws a \<open>TypeError\<close>.
\<close>

datatype js_error = TypeError

section \<open>Inputs\<close>

text \<open>The fields of the global \<open>interfaceConfig\<close> that the component reads.\<close>

record interfaceConfig =
  filmStripOnly :: jsval
  SHOW_BRAND_WATERMARK :: jsval
  BRAND_WATERMARK_LINK :: jsval
  SHOW_POWERED_BY :: jsval
  SHOW_JITSI_WATERMARK :: jsval
  SHOW_JITSI_WATERMARK_FOR_GUESTS :: jsval
  JITSI_WATERMARK_LINK :: jsval
  DEFAULT_LOGO_URL :: jsval

text \<open>\<open>state['features/base/jwt']\<close>\<close>

record jwt_state =
  isGuest :: jsval

text \<open>\<open>state['features/dynamic-branding']\<close>\<close>

record dynamic_branding_state =
  customizationReady :: jsval
  customizationFailed :: jsval
  useDynamicBrandingData :: jsval
  logoClickUrl :: jsval
  logoImageUrl :: jsval

text \<open>\<open>state['features/base/conference']\<close>\<close>

record conference_state =
  room :: jsval

text \<open>
  The snapshot of the Redux store. A slice that is missing is \<open>None\<close>; whatever else
  the store holds is the record's extension.
\<close>

record redux_state =
  features_base_jwt :: "jwt_state option"
  features_dynamic_branding :: "dynamic_branding_state option"
  features_base_conference :: "conference_state option"

abbreviation store ::
  "jwt_state \<Rightarrow> dynamic_branding_state \<Rightarrow> conference_state \<Rightarrow> redux_state" where
  "store jwt branding conference \<equiv>
     \<lparr>features_base_jwt = Some jwt, features_dynamic_branding = Some branding,
      features_base_conference = Some conference\<rparr>"

section \<open>Props and state of the component\<close>

text \<open>
  The source's prop names start with an underscore, which an Isabelle name cannot:
  \<open>_customLogoLink\<close> is \<open>p_customLogoLink\<close>, and so on. \<open>StateProps\<close> is what
  \<open>_mapStateToProps\<close> returns; \<open>Props\<close> adds what the caller and \<open>translate\<close> supply.
\<close>

record StateProps =
  p_customLogoLink :: jsval
  p_customLogoUrl :: jsval
  p_useDynamicBrandingData :: jsval
  p_showJitsiWaterMark :: jsval

record Props = StateProps +
  defaultJitsiLogoURL :: jsval
  t :: "string \<Rightarrow> string"

record State =
  brandWatermarkLink :: jsval
  showBrandWatermark :: jsval
  showPoweredBy :: jsval

section \<open>Rendered elements\<close>

record css_style =
  backgroundImage :: string
  maxWidth :: "nat option"
  maxHeight :: "nat option"

text \<open>
  \<open>Div className style\<close> is a badge, \<open>Anchor className href target children\<close> an
  \<open>a\<close> element, \<open>Span children\<close> and \<open>Text s\<close> are what the powered-by link holds.
\<close>

datatype react_node =
    Div string css_style
  | Anchor "string option" jsval string "react_node list"
  | Span "react_node list"
  | Text string

text \<open>
  The three children of the \<open>div\<close> that \<open>render\<close> returns, in the source's order; a
  child that is \<open>null\<close> is \<open>None\<close>.
\<close>

record rendered =
  jitsiWatermark :: "react_node option"
  brandWatermark :: "react_node option"
  poweredBy :: "react_node option"

section \<open>The component\<close>

text \<open>
  The functions of \<open>Watermarks.js\<close>, under the source's names without the leading
  underscore: \<open>_RIGHT_WATERMARK_STYLE\<close>, the constructor, \<open>_renderBrandWatermark\<close>,
  \<open>_renderJitsiWatermark\<close>, \<open>_renderPoweredBy\<close>, \<open>render\<close> and \<open>_mapStateToProps\<close>.
  The global \<open>interfaceConfig\<close> that the source reads is a parameter, and so are
  \<open>this.state\<close> and \<open>this.props\<close>.
\<close>

definition RIGHT_WATERMARK_STYLE :: css_style where
  "RIGHT_WATERMARK_STYLE =
     \<lparr>backgroundImage = ''url(images/rightwatermark.png)'', maxWidth = None, maxHeight = None\<rparr>"

definition Watermarks_constructor :: "interfaceConfig \<Rightarrow> State" where
  "Watermarks_constructor cfg =
     (let showBrandWatermark' =
            (if truthy (filmStripOnly cfg) then JBool False else SHOW_BRAND_WATERMARK cfg)
      in \<lparr>brandWatermarkLink =
             (if truthy showBrandWatermark' then BRAND_WATERMARK_LINK cfg else JStr ''''),
           showBrandWatermark = showBrandWatermark',
           showPoweredBy = SHOW_POWERED_BY cfg\<rparr>)"

definition renderBrandWatermark :: "State \<Rightarrow> react_node option" where
  "renderBrandWatermark st =
     (if truthy (showBrandWatermark st) then
        (let reactElement = Div ''watermark rightwatermark'' RIGHT_WATERMARK_STYLE
         in if truthy (brandWatermarkLink st)
            then Some (Anchor None (brandWatermarkLink st) ''_new'' [reactElement])
            else Some reactElement)
      else None)"

definition renderJitsiWatermark :: "interfaceConfig \<Rightarrow> Props \<Rightarrow> react_node option" where
  "renderJitsiWatermark cfg props =
     (if truthy (p_showJitsiWaterMark props) then
        (let (link, backgroundImage') =
               (if truthy (p_useDynamicBrandingData props)
                then (p_customLogoLink props,
                      ''url('' @ toString (p_customLogoUrl props) @ '')'')
                else (JITSI_WATERMARK_LINK cfg,
                      ''url('' @ toString (js_or (defaultJitsiLogoURL props) (DEFAULT_LOGO_URL cfg))
                        @ '')''));
             style = \<lparr>backgroundImage = backgroundImage', maxWidth = Some 140,
                      maxHeight = Some 70\<rparr>;
             reactElement = Div ''watermark leftwatermark'' style
         in if truthy link
            then Some (Anchor None link ''_new'' [reactElement])
            else Some reactElement)
      else None)"

definition renderPoweredBy :: "State \<Rightarrow> Props \<Rightarrow> react_node option" where
  "renderPoweredBy st props =
     (if truthy (showPoweredBy st) then
        Some (Anchor (Some ''poweredby'') (JStr ''http://jitsi.org'') ''_new''
               [Span [Text (t props ''poweredby''), Text '' jitsi.org'']])
      else None)"

definition render :: "interfaceConfig \<Rightarrow> State \<Rightarrow> Props \<Rightarrow> rendered" where
  "render cfg st props =
     \<lparr>jitsiWatermark = renderJitsiWatermark cfg props,
      brandWatermark = renderBrandWatermark st,
      poweredBy = renderPoweredBy st props\<rparr>"

text \<open>
  The local constants \<open>welcomePageVisible\<close> and \<open>showJitsiWatermark\<close> of
  \<open>_mapStateToProps\<close>. \<open>a && b && c\<close> is \<open>(a && b) && c\<close>.
\<close>

definition showJitsiWatermark ::
  "interfaceConfig \<Rightarrow> jwt_state \<Rightarrow> dynamic_branding_state \<Rightarrow> conference_state \<Rightarrow> jsval" where
  "showJitsiWatermark cfg jwt branding conference =
     (let welcomePageVisible = js_not (room conference)
      in js_or
           (js_and
              (js_and (js_not (filmStripOnly cfg))
                 (js_and (customizationReady branding)
                    (js_not (customizationFailed branding))))
              (js_or (SHOW_JITSI_WATERMARK cfg)
                 (js_and (isGuest jwt) (SHOW_JITSI_WATERMARK_FOR_GUESTS cfg))))
           welcomePageVisible)"

definition mapStateToProps ::
  "interfaceConfig \<Rightarrow> 'a redux_state_scheme \<Rightarrow> js_error + StateProps" where
  "mapStateToProps cfg state =
     (case features_base_jwt state of
        None \<Rightarrow> Inl TypeError
      | Some jwt \<Rightarrow>
     (case features_dynamic_branding state of
        None \<Rightarrow> Inl TypeError
      | Some branding \<Rightarrow>
     (case features_base_conference state of
        None \<Rightarrow> Inl TypeError
      | Some conference \<Rightarrow>
          Inr \<lparr>p_customLogoLink = logoClickUrl branding,
               p_customLogoUrl = logoImageUrl branding,
               p_useDynamicBrandingData = useDynamicBrandingData branding,
               p_showJitsiWaterMark = showJitsiWatermark cfg jwt branding conference\<rparr>)))"

text \<open>
  \<open>connect(_mapStateToProps)(translate(Watermarks))\<close>: the props of the component are
  the caller's (\<open>defaultJitsiLogoURL\<close>), the translator's (\<open>t\<close>) and the ones mapped from
  the store. The instance's state is the one the constructor computed from
  \<open>interfaceConfig\<close>.
\<close>

definition mergeProps :: "StateProps \<Rightarrow> jsval \<Rightarrow> (string \<Rightarrow> string) \<Rightarrow> Props" where
  "mergeProps sp d tr =
     \<lparr>p_customLogoLink = p_customLogoLink sp,
      p_customLogoUrl = p_customLogoUrl sp,
      p_useDynamicBrandingData = p_useDynamicBrandingData sp,
      p_showJitsiWaterMark = p_showJitsiWaterMark sp,
      defaultJitsiLogoURL = d,
      t = tr\<rparr>"

definition Watermarks ::
  "interfaceConfig \<Rightarrow> 'a redux_state_scheme \<Rightarrow> jsval \<Rightarrow> (string \<Rightarrow> string)
     \<Rightarrow> js_error + rendered" where
  "Watermarks cfg state d tr =
     (case mapStateToProps cfg state of
        Inl e \<Rightarrow> Inl e
      | Inr sp \<Rightarrow> Inr (render cfg (Watermarks_constructor cfg) (mergeProps sp d tr)))"



section \<open>Reading the rendered slots\<close>

text \<open>
  The badges the component can render: the product badge with a given background image,
  the brand badge, and a badge wrapped in a link that opens in a new context.
\<close>

abbreviation leftwatermark :: "string \<Rightarrow> react_node" where
  "leftwatermark bg \<equiv>
     Div ''watermark leftwatermark''
       \<lparr>backgroundImage = bg, maxWidth = Some 140, maxHeight = Some 70\<rparr>"

abbreviation rightwatermark :: react_node where
  "rightwatermark \<equiv> Div ''watermark rightwatermark'' RIGHT_WATERMARK_STYLE"

abbreviation wrapped :: "jsval \<Rightarrow> react_node \<Rightarrow> react_node" where
  "wrapped link node \<equiv> Anchor None link ''_new'' [node]"

abbreviation poweredby_link :: "(string \<Rightarrow> string) \<Rightarrow> react_node" where
  "poweredby_link tr \<equiv>
     Anchor (Some ''poweredby'') (JStr ''http://jitsi.org'') ''_new''
       [Span [Text (tr ''poweredby''), Text '' jitsi.org'']]"

text \<open>
  The three states of a slot. A slot is visible with a link when it is an \<open>a\<close> element
  whose \<open>href\<close> is a non-empty value.
\<close>

fun not_visible :: "react_node option \<Rightarrow> bool" where
  "not_visible None = True"
| "not_visible (Some n) = False"

fun visible_no_link :: "react_node option \<Rightarrow> bool" where
  "visible_no_link (Some (Div cls sty)) = True"
| "visible_no_link x = False"

fun visible_with_link :: "react_node option \<Rightarrow> bool" where
  "visible_with_link (Some (Anchor cls href target children)) = truthy href"
| "visible_with_link x = False"

definition exactly_one :: "bool \<Rightarrow> bool \<Rightarrow> bool \<Rightarrow> bool" where
  "exactly_one a b c = ((a \<and> \<not> b \<and> \<not> c) \<or> (b \<and> \<not> a \<and> \<not> c) \<or> (c \<and> \<not> a \<and> \<not> b))"

text \<open>A field that is absent: \<open>undefined\<close> or \<open>null\<close>.\<close>

fun absent :: "jsval \<Rightarrow> bool" where
  "absent JUndefined = True"
| "absent JNull = True"
| "absent v = False"

section \<open>Sample inputs\<close>

definition sample_config :: interfaceConfig where
  "sample_config =
     \<lparr>filmStripOnly = JBool False,
      SHOW_BRAND_WATERMARK = JBool True,
      BRAND_WATERMARK_LINK = JStr ''https://brand.example'',
      SHOW_POWERED_BY = JBool True,
      SHOW_JITSI_WATERMARK = JBool True,
      SHOW_JITSI_WATERMARK_FOR_GUESTS = JBool True,
      JITSI_WATERMARK_LINK = JStr ''https://jitsi.org'',
      DEFAULT_LOGO_URL = JStr ''images/watermark.png''\<rparr>"

definition sample_jwt :: jwt_state where
  "sample_jwt = \<lparr>isGuest = JBool False\<rparr>"

definition sample_branding :: dynamic_branding_state where
  "sample_branding =
     \<lparr>customizationReady = JBool True,
      customizationFailed = JBool False,
      useDynamicBrandingData = JBool True,
      logoClickUrl = JStr ''https://example.com'',
      logoImageUrl = JStr ''https://x/logo.png''\<rparr>"

definition sample_conference :: conference_state where
  "sample_conference = \<lparr>room = JStr ''room1''\<rparr>"

section \<open>Truthiness of the operators\<close>

lemma truthy_js_not [simp]: "truthy (js_not v) = (\<not> truthy v)"
  by (simp add: js_not_def)

lemma truthy_js_and [simp]: "truthy (js_and a b) = (truthy a \<and> truthy b)"
  by (simp add: js_and_def)

lemma truthy_js_or [simp]: "truthy (js_or a b) = (truthy a \<or> truthy b)"
  by (simp add: js_or_def)

lemma js_or_falsy: "\<not> truthy a \<Longrightarrow> js_or a b = b"
  by (simp add: js_or_def)

lemma js_or_absent: "absent a \<Longrightarrow> js_or a b = b"
  by (cases a) (simp_all add: js_or_def)

lemma absent_falsy: "absent v \<Longrightarrow> \<not> truthy v"
  by (cases v) simp_all

lemma js_not_cong: "truthy a = truthy b \<Longrightarrow> js_not a = js_not b"
  by (simp add: js_not_def)

section \<open>What each part of the component computes\<close>

lemmas sample_defs =
  sample_config_def sample_jwt_def sample_branding_def sample_conference_def

lemma truthy_showJitsiWatermark:
  "truthy (showJitsiWatermark cfg j b c) =
     ((\<not> truthy (filmStripOnly cfg)
       \<and> (truthy (customizationReady b) \<and> \<not> truthy (customizationFailed b))
       \<and> (truthy (SHOW_JITSI_WATERMARK cfg)
           \<or> (truthy (isGuest j) \<and> truthy (SHOW_JITSI_WATERMARK_FOR_GUESTS cfg))))
      \<or> \<not> truthy (room c))"
  by (simp add: showJitsiWatermark_def)

lemma showJitsiWatermark_customization_not_ok:
  assumes "\<not> (truthy (customizationReady b) \<and> \<not> truthy (customizationFailed b))"
  shows "showJitsiWatermark cfg j b c = JBool (\<not> truthy (room c))"
proof -
  have "\<not> truthy
      (js_and
         (js_and (js_not (filmStripOnly cfg))
            (js_and (customizationReady b) (js_not (customizationFailed b))))
         (js_or (SHOW_JITSI_WATERMARK cfg)
            (js_and (isGuest j) (SHOW_JITSI_WATERMARK_FOR_GUESTS cfg))))"
    using assms by simp
  then show ?thesis
    by (simp add: showJitsiWatermark_def js_or_falsy js_not_def)
qed

lemma mapStateToProps_slices:
  assumes "features_base_jwt s = Some j" and "features_dynamic_branding s = Some b"
    and "features_base_conference s = Some c"
  shows "mapStateToProps cfg s =
     Inr \<lparr>p_customLogoLink = logoClickUrl b,
          p_customLogoUrl = logoImageUrl b,
          p_useDynamicBrandingData = useDynamicBrandingData b,
          p_showJitsiWaterMark = showJitsiWatermark cfg j b c\<rparr>"
  using assms by (simp add: mapStateToProps_def)

lemma mapStateToProps_missing_slice:
  "features_base_jwt s = None \<or> features_dynamic_branding s = None
     \<or> features_base_conference s = None \<Longrightarrow>
   mapStateToProps cfg s = Inl TypeError"
  by (auto simp add: mapStateToProps_def split: option.splits)

lemma Watermarks_slices:
  assumes "features_base_jwt s = Some j" and "features_dynamic_branding s = Some b"
    and "features_base_conference s = Some c"
  shows "Watermarks cfg s d tr =
     Inr \<lparr>jitsiWatermark =
            renderJitsiWatermark cfg
              \<lparr>p_customLogoLink = logoClickUrl b,
               p_customLogoUrl = logoImageUrl b,
               p_useDynamicBrandingData = useDynamicBrandingData b,
               p_showJitsiWaterMark = showJitsiWatermark cfg j b c,
               defaultJitsiLogoURL = d, t = tr\<rparr>,
          brandWatermark = renderBrandWatermark (Watermarks_constructor cfg),
          poweredBy =
            renderPoweredBy (Watermarks_constructor cfg)
              \<lparr>p_customLogoLink = logoClickUrl b,
               p_customLogoUrl = logoImageUrl b,
               p_useDynamicBrandingData = useDynamicBrandingData b,
               p_showJitsiWaterMark = showJitsiWatermark cfg j b c,
               defaultJitsiLogoURL = d, t = tr\<rparr>\<rparr>"
  by (simp add: Watermarks_def mapStateToProps_slices [OF assms] render_def mergeProps_def)

lemma renderBrandWatermark_constructor:
  "renderBrandWatermark (Watermarks_constructor cfg) =
     (if \<not> truthy (filmStripOnly cfg) \<and> truthy (SHOW_BRAND_WATERMARK cfg)
      then (if truthy (BRAND_WATERMARK_LINK cfg)
            then Some (wrapped (BRAND_WATERMARK_LINK cfg) rightwatermark)
            else Some rightwatermark)
      else None)"
  by (simp add: renderBrandWatermark_def Watermarks_constructor_def Let_def)

lemma brandWatermarkLink_constructor:
  "brandWatermarkLink (Watermarks_constructor cfg) =
     (if \<not> truthy (filmStripOnly cfg) \<and> truthy (SHOW_BRAND_WATERMARK cfg)
      then BRAND_WATERMARK_LINK cfg else JStr [])"
  by (simp add: Watermarks_constructor_def Let_def)

lemma renderPoweredBy_constructor:
  "renderPoweredBy (Watermarks_constructor cfg) props =
     (if truthy (SHOW_POWERED_BY cfg) then Some (poweredby_link (t props)) else None)"
  by (simp add: renderPoweredBy_def Watermarks_constructor_def Let_def)

lemma renderJitsiWatermark_cases:
  "renderJitsiWatermark cfg props =
     (if \<not> truthy (p_showJitsiWaterMark props) then None
      else if truthy (p_useDynamicBrandingData props) then
        (if truthy (p_customLogoLink props)
         then Some (wrapped (p_customLogoLink props)
                      (leftwatermark (''url('' @ toString (p_customLogoUrl props) @ '')'')))
         else Some (leftwatermark (''url('' @ toString (p_customLogoUrl props) @ '')'')))
      else
        (if truthy (JITSI_WATERMARK_LINK cfg)
         then Some (wrapped (JITSI_WATERMARK_LINK cfg)
                      (leftwatermark
                         (''url('' @ toString (js_or (defaultJitsiLogoURL props)
                                                 (DEFAULT_LOGO_URL cfg)) @ '')'')))
         else Some (leftwatermark
                      (''url('' @ toString (js_or (defaultJitsiLogoURL props)
                                              (DEFAULT_LOGO_URL cfg)) @ '')''))))"
  by (simp add: renderJitsiWatermark_def Let_def)

text \<open>The rendering of the three slots, for a store that holds the three slices.\<close>

lemma jitsiWatermark_store:
  assumes "Watermarks cfg (store j b c) d tr = Inr r"
  shows "jitsiWatermark r =
     (if \<not> truthy (showJitsiWatermark cfg j b c) then None
      else if truthy (useDynamicBrandingData b) then
        (if truthy (logoClickUrl b)
         then Some (wrapped (logoClickUrl b)
                      (leftwatermark (''url('' @ toString (logoImageUrl b) @ '')'')))
         else Some (leftwatermark (''url('' @ toString (logoImageUrl b) @ '')'')))
      else
        (if truthy (JITSI_WATERMARK_LINK cfg)
         then Some (wrapped (JITSI_WATERMARK_LINK cfg)
                      (leftwatermark
                         (''url('' @ toString (js_or d (DEFAULT_LOGO_URL cfg)) @ '')'')))
         else Some (leftwatermark
                      (''url('' @ toString (js_or d (DEFAULT_LOGO_URL cfg)) @ '')''))))"
proof -
  have "Watermarks cfg (store j b c) d tr =
     Inr \<lparr>jitsiWatermark =
            renderJitsiWatermark cfg
              \<lparr>p_customLogoLink = logoClickUrl b,
               p_customLogoUrl = logoImageUrl b,
               p_useDynamicBrandingData = useDynamicBrandingData b,
               p_showJitsiWaterMark = showJitsiWatermark cfg j b c,
               defaultJitsiLogoURL = d, t = tr\<rparr>,
          brandWatermark = renderBrandWatermark (Watermarks_constructor cfg),
          poweredBy =
            renderPoweredBy (Watermarks_constructor cfg)
              \<lparr>p_customLogoLink = logoClickUrl b,
               p_customLogoUrl = logoImageUrl b,
               p_useDynamicBrandingData = useDynamicBrandingData b,
               p_showJitsiWaterMark = showJitsiWatermark cfg j b c,
               defaultJitsiLogoURL = d, t = tr\<rparr>\<rparr>"
    by (rule Watermarks_slices) simp_all
  with assms have "jitsiWatermark r =
      renderJitsiWatermark cfg
        \<lparr>p_customLogoLink = logoClickUrl b,
         p_customLogoUrl = logoImageUrl b,
         p_useDynamicBrandingData = useDynamicBrandingData b,
         p_showJitsiWaterMark = showJitsiWatermark cfg j b c,
         defaultJitsiLogoURL = d, t = tr\<rparr>"
    by auto
  then show ?thesis
    by (simp only: renderJitsiWatermark_cases) simp
qed

lemma brandWatermark_store:
  assumes "Watermarks cfg (store j b c) d tr = Inr r"
  shows "brandWatermark r = renderBrandWatermark (Watermarks_constructor cfg)"
  using assms Watermarks_slices [of "store j b c" j b c cfg d tr] by auto

lemma poweredBy_store:
  assumes "Watermarks cfg (store j b c) d tr = Inr r"
  shows "poweredBy r = (if truthy (SHOW_POWERED_BY cfg) then Some (poweredby_link tr) else None)"
  using assms Watermarks_slices [of "store j b c" j b c cfg d tr]
  by (auto simp add: renderPoweredBy_constructor)

lemma Watermarks_store_total: "\<exists>r. Watermarks cfg (store j b c) d tr = Inr r"
  using Watermarks_slices [of "store j b c" j b c cfg d tr] by simp

lemma Watermarks_slices_explicit:
  assumes "features_base_jwt s = Some j" and "features_dynamic_branding s = Some b"
    and "features_base_conference s = Some c"
  shows "Watermarks cfg s d tr =
     Inr \<lparr>jitsiWatermark =
            renderJitsiWatermark cfg
              \<lparr>p_customLogoLink = logoClickUrl b,
               p_customLogoUrl = logoImageUrl b,
               p_useDynamicBrandingData = useDynamicBrandingData b,
               p_showJitsiWaterMark = showJitsiWatermark cfg j b c,
               defaultJitsiLogoURL = d, t = tr\<rparr>,
          brandWatermark = renderBrandWatermark (Watermarks_constructor cfg),
          poweredBy =
            (if truthy (SHOW_POWERED_BY cfg) then Some (poweredby_link tr) else None)\<rparr>"
  by (simp add: Watermarks_slices [OF assms] renderPoweredBy_constructor)

lemma Watermarks_store_explicit:
  "Watermarks cfg (store j b c) d tr =
     Inr \<lparr>jitsiWatermark =
            renderJitsiWatermark cfg
              \<lparr>p_customLogoLink = logoClickUrl b,
               p_customLogoUrl = logoImageUrl b,
               p_useDynamicBrandingData = useDynamicBrandingData b,
               p_showJitsiWaterMark = showJitsiWatermark cfg j b c,
               defaultJitsiLogoURL = d, t = tr\<rparr>,
          brandWatermark = renderBrandWatermark (Watermarks_constructor cfg),
          poweredBy =
            (if truthy (SHOW_POWERED_BY cfg) then Some (poweredby_link tr) else None)\<rparr>"
  by (rule Watermarks_slices_explicit) simp_all

lemma showJitsiWatermark_failed_absent:
  assumes "absent v"
  shows "showJitsiWatermark cfg j (b\<lparr>customizationFailed := v\<rparr>) c =
     showJitsiWatermark cfg j (b\<lparr>customizationFailed := JBool False\<rparr>) c"
  using absent_falsy [OF assms] by (simp add: showJitsiWatermark_def js_not_def)

lemma jitsiWatermark_None_iff:
  assumes "Watermarks cfg (store j b c) d tr = Inr r"
  shows "(jitsiWatermark r = None) = (\<not> truthy (showJitsiWatermark cfg j b c))"
  by (simp add: jitsiWatermark_store [OF assms])


lemma Watermarks_missing_slice:
  "features_base_jwt s = None \<or> features_dynamic_branding s = None
     \<or> features_base_conference s = None \<Longrightarrow>
   Watermarks cfg s d tr = Inl TypeError"
  by (simp add: Watermarks_def mapStateToProps_missing_slice)

lemma Watermarks_total_iff:
  "(\<exists>r. Watermarks cfg s d tr = Inr r) =
     (features_base_jwt s \<noteq> None \<and> features_dynamic_branding s \<noteq> None
        \<and> features_base_conference s \<noteq> None)"
proof (cases "features_base_jwt s = None \<or> features_dynamic_branding s = None
     \<or> features_base_conference s = None")
  case True
  then show ?thesis
    using Watermarks_missing_slice [OF True, of cfg d tr] by auto
next
  case False
  then obtain j b c where "features_base_jwt s = Some j"
    and "features_dynamic_branding s = Some b" and "features_base_conference s = Some c"
    by auto
  then show ?thesis
    using Watermarks_slices [of s j b c cfg d tr] by simp
qed





section \<open>Product slot\<close>

text \<open>
  C1. For every config, branding and session input the product slot is rendered exactly
  when the static path holds (not film-strip-only, customization ready and not failed,
  and the watermark enabled for everybody or for guests when the viewer is a guest) or
  no room is active. In particular, with no active room the product slot is rendered
  whatever the other flags are.
\<close>

theorem product_slot_visibility:
  "\<exists>r. Watermarks cfg (store j b c) d tr = Inr r \<and>
     ((jitsiWatermark r \<noteq> None) =
        ((\<not> truthy (filmStripOnly cfg)
          \<and> (truthy (customizationReady b) \<and> \<not> truthy (customizationFailed b))
          \<and> (truthy (SHOW_JITSI_WATERMARK cfg)
              \<or> (truthy (isGuest j) \<and> truthy (SHOW_JITSI_WATERMARK_FOR_GUESTS cfg))))
         \<or> \<not> truthy (room c))) \<and>
     (\<not> truthy (room c) \<longrightarrow> jitsiWatermark r \<noteq> None)"
proof -
  obtain r where r: "Watermarks cfg (store j b c) d tr = Inr r"
    using Watermarks_store_total by blast
  have "(jitsiWatermark r \<noteq> None) = truthy (showJitsiWatermark cfg j b c)"
    by (simp add: jitsiWatermark_store [OF r])
  then show ?thesis
    using r by (simp add: truthy_showJitsiWatermark)
qed

theorem product_slot_visibility_witness:
  "\<exists>r. Watermarks (sample_config\<lparr>filmStripOnly := JBool True\<rparr>)
         (store sample_jwt sample_branding (sample_conference\<lparr>room := JUndefined\<rparr>))
         JUndefined id = Inr r \<and>
       \<not> truthy (room (sample_conference\<lparr>room := JUndefined\<rparr>)) \<and>
       jitsiWatermark r \<noteq> None"
  using product_slot_visibility [of "sample_config\<lparr>filmStripOnly := JBool True\<rparr>"
      sample_jwt sample_branding "sample_conference\<lparr>room := JUndefined\<rparr>" JUndefined id]
  by (simp add: sample_defs)

text \<open>
  C4. Whenever the product slot is rendered: with dynamic branding in use its link is
  \<open>logoClickUrl\<close> (the badge is unwrapped when that is empty) and its background image
  refers to \<open>logoImageUrl\<close>; otherwise its link is \<open>JITSI_WATERMARK_LINK\<close> and its
  background image refers to the caller's default logo URL, or to \<open>DEFAULT_LOGO_URL\<close>
  when the caller supplies none.
\<close>

theorem product_slot_link_and_image:
  assumes "Watermarks cfg (store j b c) d tr = Inr r" and "jitsiWatermark r \<noteq> None"
  shows "(truthy (useDynamicBrandingData b) \<longrightarrow>
            jitsiWatermark r =
              (if truthy (logoClickUrl b)
               then Some (wrapped (logoClickUrl b)
                            (leftwatermark (''url('' @ toString (logoImageUrl b) @ '')'')))
               else Some (leftwatermark (''url('' @ toString (logoImageUrl b) @ '')'')))) \<and>
         (\<not> truthy (useDynamicBrandingData b) \<longrightarrow>
            jitsiWatermark r =
              (if truthy (JITSI_WATERMARK_LINK cfg)
               then Some (wrapped (JITSI_WATERMARK_LINK cfg)
                            (leftwatermark
                               (''url('' @ toString (if truthy d then d else DEFAULT_LOGO_URL cfg)
                                  @ '')'')))
               else Some (leftwatermark
                            (''url('' @ toString (if truthy d then d else DEFAULT_LOGO_URL cfg)
                               @ '')''))))"
proof -
  have vis: "truthy (showJitsiWatermark cfg j b c)"
    using assms(2) by (simp add: jitsiWatermark_store [OF assms(1)] split: if_splits)
  show ?thesis
    using vis by (simp add: jitsiWatermark_store [OF assms(1)] js_or_def)
qed

theorem product_slot_link_and_image_witness:
  "Watermarks sample_config
     (store sample_jwt (sample_branding\<lparr>logoClickUrl := JStr []\<rparr>) sample_conference)
     JUndefined id =
     Inr \<lparr>jitsiWatermark = Some (leftwatermark ''url(https://x/logo.png)''),
          brandWatermark = Some (wrapped (JStr ''https://brand.example'') rightwatermark),
          poweredBy = Some (poweredby_link id)\<rparr> \<and>
   Watermarks sample_config
     (store sample_jwt (sample_branding\<lparr>useDynamicBrandingData := JBool False\<rparr>)
        sample_conference)
     JUndefined id =
     Inr \<lparr>jitsiWatermark =
            Some (wrapped (JStr ''https://jitsi.org'')
                    (leftwatermark ''url(images/watermark.png)'')),
          brandWatermark = Some (wrapped (JStr ''https://brand.example'') rightwatermark),
          poweredBy = Some (poweredby_link id)\<rparr>"
proof -
  let ?b1 = "sample_branding\<lparr>logoClickUrl := JStr []\<rparr>"
  let ?b2 = "sample_branding\<lparr>useDynamicBrandingData := JBool False\<rparr>"
  obtain r1 where r1: "Watermarks sample_config (store sample_jwt ?b1 sample_conference)
      JUndefined id = Inr r1"
    using Watermarks_store_total by blast
  obtain r2 where r2: "Watermarks sample_config (store sample_jwt ?b2 sample_conference)
      JUndefined id = Inr r2"
    using Watermarks_store_total by blast
  have v1: "jitsiWatermark r1 \<noteq> None"
    by (simp add: jitsiWatermark_store [OF r1] truthy_showJitsiWatermark sample_defs)
  have v2: "jitsiWatermark r2 \<noteq> None"
    by (simp add: jitsiWatermark_store [OF r2] truthy_showJitsiWatermark sample_defs)
  have j1: "jitsiWatermark r1 = Some (leftwatermark ''url(https://x/logo.png)'')"
    using product_slot_link_and_image [OF r1 v1] by (simp add: sample_defs)
  have j2: "jitsiWatermark r2 =
      Some (wrapped (JStr ''https://jitsi.org'') (leftwatermark ''url(images/watermark.png)''))"
    using product_slot_link_and_image [OF r2 v2] by (simp add: sample_defs)
  have b1: "brandWatermark r1 = Some (wrapped (JStr ''https://brand.example'') rightwatermark)"
    by (simp add: brandWatermark_store [OF r1] renderBrandWatermark_constructor sample_defs)
  have b2: "brandWatermark r2 = Some (wrapped (JStr ''https://brand.example'') rightwatermark)"
    by (simp add: brandWatermark_store [OF r2] renderBrandWatermark_constructor sample_defs)
  have p1: "poweredBy r1 = Some (poweredby_link id)"
    by (simp add: poweredBy_store [OF r1] sample_defs)
  have p2: "poweredBy r2 = Some (poweredby_link id)"
    by (simp add: poweredBy_store [OF r2] sample_defs)
  have "r1 = \<lparr>jitsiWatermark = Some (leftwatermark ''url(https://x/logo.png)''),
          brandWatermark = Some (wrapped (JStr ''https://brand.example'') rightwatermark),
          poweredBy = Some (poweredby_link id)\<rparr>"
    using j1 b1 p1 by (cases r1) simp
  moreover have "r2 = \<lparr>jitsiWatermark =
            Some (wrapped (JStr ''https://jitsi.org'')
                    (leftwatermark ''url(images/watermark.png)'')),
          brandWatermark = Some (wrapped (JStr ''https://brand.example'') rightwatermark),
          poweredBy = Some (poweredby_link id)\<rparr>"
    using j2 b2 p2 by (cases r2) simp
  ultimately show ?thesis
    using r1 r2 by simp
qed

text \<open>
  C10. Whenever the product slot is rendered and dynamic branding is in use, the
  background image is \<open>url(\<dots>)\<close> around \<open>logoImageUrl\<close> as a template literal
  converts it: \<open>url(undefined)\<close> when \<open>logoImageUrl\<close> is undefined. Neither the
  caller's default logo URL nor \<open>DEFAULT_LOGO_URL\<close> has any influence.
\<close>

theorem dynamic_background_image:
  assumes "Watermarks cfg (store j b c) d tr = Inr r" and "jitsiWatermark r \<noteq> None"
    and "truthy (useDynamicBrandingData b)"
  shows "jitsiWatermark r =
           (if truthy (logoClickUrl b)
            then Some (wrapped (logoClickUrl b)
                         (leftwatermark (''url('' @ toString (logoImageUrl b) @ '')'')))
            else Some (leftwatermark (''url('' @ toString (logoImageUrl b) @ '')''))) \<and>
         (logoImageUrl b = JUndefined \<longrightarrow>
            jitsiWatermark r =
              (if truthy (logoClickUrl b)
               then Some (wrapped (logoClickUrl b) (leftwatermark ''url(undefined)''))
               else Some (leftwatermark ''url(undefined)''))) \<and>
         (\<forall>d' v. \<exists>r'. Watermarks (cfg\<lparr>DEFAULT_LOGO_URL := v\<rparr>) (store j b c) d' tr = Inr r' \<and>
            jitsiWatermark r' = jitsiWatermark r)"
proof -
  have vis: "truthy (showJitsiWatermark cfg j b c)"
    using assms(2) by (simp add: jitsiWatermark_store [OF assms(1)] split: if_splits)
  have first: "jitsiWatermark r =
           (if truthy (logoClickUrl b)
            then Some (wrapped (logoClickUrl b)
                         (leftwatermark (''url('' @ toString (logoImageUrl b) @ '')'')))
            else Some (leftwatermark (''url('' @ toString (logoImageUrl b) @ '')'')))"
    using vis assms(3) by (simp add: jitsiWatermark_store [OF assms(1)])
  have indep: "\<exists>r'. Watermarks (cfg\<lparr>DEFAULT_LOGO_URL := v\<rparr>) (store j b c) d' tr = Inr r' \<and>
      jitsiWatermark r' = jitsiWatermark r" for d' v
  proof -
    obtain r' where r': "Watermarks (cfg\<lparr>DEFAULT_LOGO_URL := v\<rparr>) (store j b c) d' tr = Inr r'"
      using Watermarks_store_total by blast
    have same: "showJitsiWatermark (cfg\<lparr>DEFAULT_LOGO_URL := v\<rparr>) j b c =
        showJitsiWatermark cfg j b c"
      by (simp add: showJitsiWatermark_def)
    have "jitsiWatermark r' = jitsiWatermark r"
      using vis assms(3) by (simp add: jitsiWatermark_store [OF r'] same first)
    with r' show ?thesis by blast
  qed
  show ?thesis
    using first indep by simp
qed

theorem dynamic_background_image_witness:
  "Watermarks sample_config
     (store sample_jwt (sample_branding\<lparr>logoImageUrl := JUndefined\<rparr>) sample_conference)
     (JStr ''images/caller.png'') id =
     Inr \<lparr>jitsiWatermark =
            Some (wrapped (JStr ''https://example.com'') (leftwatermark ''url(undefined)'')),
          brandWatermark = Some (wrapped (JStr ''https://brand.example'') rightwatermark),
          poweredBy = Some (poweredby_link id)\<rparr>"
proof -
  let ?b = "sample_branding\<lparr>logoImageUrl := JUndefined\<rparr>"
  obtain r where r: "Watermarks sample_config (store sample_jwt ?b sample_conference)
      (JStr ''images/caller.png'') id = Inr r"
    using Watermarks_store_total by blast
  have v: "jitsiWatermark r \<noteq> None"
    by (simp add: jitsiWatermark_store [OF r] truthy_showJitsiWatermark sample_defs)
  have u: "truthy (useDynamicBrandingData ?b)"
    by (simp add: sample_defs)
  have "jitsiWatermark r =
      Some (wrapped (JStr ''https://example.com'') (leftwatermark ''url(undefined)''))"
    using dynamic_background_image [OF r v u] by (simp add: sample_defs)
  moreover have "brandWatermark r =
      Some (wrapped (JStr ''https://brand.example'') rightwatermark)"
    by (simp add: brandWatermark_store [OF r] renderBrandWatermark_constructor sample_defs)
  moreover have "poweredBy r = Some (poweredby_link id)"
    by (simp add: poweredBy_store [OF r] sample_defs)
  ultimately have "r = \<lparr>jitsiWatermark =
            Some (wrapped (JStr ''https://example.com'') (leftwatermark ''url(undefined)'')),
          brandWatermark = Some (wrapped (JStr ''https://brand.example'') rightwatermark),
          poweredBy = Some (poweredby_link id)\<rparr>"
    by (cases r) simp
  with r show ?thesis by simp
qed

section \<open>Brand slot\<close>

text \<open>
  C2. The brand slot is not rendered when \<open>filmStripOnly\<close> is set; otherwise it is
  rendered exactly when \<open>SHOW_BRAND_WATERMARK\<close> is set. No branding input, session input
  or caller's prop changes what the brand slot renders.
\<close>

theorem brand_slot_visibility:
  "\<exists>r. Watermarks cfg (store j b c) d tr = Inr r \<and>
     (truthy (filmStripOnly cfg) \<longrightarrow> brandWatermark r = None) \<and>
     (\<not> truthy (filmStripOnly cfg) \<longrightarrow>
        (brandWatermark r \<noteq> None) = truthy (SHOW_BRAND_WATERMARK cfg)) \<and>
     (\<forall>j' b' c' d' tr'. \<exists>r'. Watermarks cfg (store j' b' c') d' tr' = Inr r' \<and>
         brandWatermark r' = brandWatermark r)"
proof -
  obtain r where r: "Watermarks cfg (store j b c) d tr = Inr r"
    using Watermarks_store_total by blast
  have indep: "\<exists>r'. Watermarks cfg (store j' b' c') d' tr' = Inr r' \<and>
      brandWatermark r' = brandWatermark r" for j' b' c' d' tr'
  proof -
    obtain r' where r': "Watermarks cfg (store j' b' c') d' tr' = Inr r'"
      using Watermarks_store_total by blast
    have "brandWatermark r' = brandWatermark r"
      by (simp add: brandWatermark_store [OF r] brandWatermark_store [OF r'])
    with r' show ?thesis by blast
  qed
  have "truthy (filmStripOnly cfg) \<longrightarrow> brandWatermark r = None"
    by (simp add: brandWatermark_store [OF r] renderBrandWatermark_constructor)
  moreover have "\<not> truthy (filmStripOnly cfg) \<longrightarrow>
      (brandWatermark r \<noteq> None) = truthy (SHOW_BRAND_WATERMARK cfg)"
    by (simp add: brandWatermark_store [OF r] renderBrandWatermark_constructor)
  ultimately show ?thesis
    using r indep by blast
qed

theorem brand_slot_visibility_witness:
  "(\<exists>r. Watermarks (sample_config\<lparr>filmStripOnly := JBool True\<rparr>)
          (store sample_jwt sample_branding sample_conference) JUndefined id = Inr r \<and>
        truthy (filmStripOnly (sample_config\<lparr>filmStripOnly := JBool True\<rparr>)) \<and>
        brandWatermark r = None) \<and>
   (\<exists>r. Watermarks sample_config
          (store sample_jwt sample_branding sample_conference) JUndefined id = Inr r \<and>
        \<not> truthy (filmStripOnly sample_config) \<and>
        truthy (SHOW_BRAND_WATERMARK sample_config) \<and>
        brandWatermark r \<noteq> None)"
proof -
  have t: "truthy (filmStripOnly (sample_config\<lparr>filmStripOnly := JBool True\<rparr>))"
    and f: "\<not> truthy (filmStripOnly sample_config)"
    and s: "truthy (SHOW_BRAND_WATERMARK sample_config)"
    by (simp_all add: sample_defs)
  from brand_slot_visibility [of "sample_config\<lparr>filmStripOnly := JBool True\<rparr>"
      sample_jwt sample_branding sample_conference JUndefined id]
  have one: "\<exists>r. Watermarks (sample_config\<lparr>filmStripOnly := JBool True\<rparr>)
          (store sample_jwt sample_branding sample_conference) JUndefined id = Inr r \<and>
        truthy (filmStripOnly (sample_config\<lparr>filmStripOnly := JBool True\<rparr>)) \<and>
        brandWatermark r = None"
    using t by blast
  from brand_slot_visibility [of sample_config
      sample_jwt sample_branding sample_conference JUndefined id]
  have two: "\<exists>r. Watermarks sample_config
          (store sample_jwt sample_branding sample_conference) JUndefined id = Inr r \<and>
        \<not> truthy (filmStripOnly sample_config) \<and>
        truthy (SHOW_BRAND_WATERMARK sample_config) \<and>
        brandWatermark r \<noteq> None"
    using f s by blast
  from one two show ?thesis by blast
qed

text \<open>
  C3. Whenever the brand slot is rendered: with a non-empty \<open>BRAND_WATERMARK_LINK\<close> the
  link kept in the component's state is that value and the badge is wrapped in a link to
  it; with an empty one the link kept is empty and the badge is rendered unwrapped. Not
  rendered, rendered unwrapped and rendered wrapped are three different results.
\<close>

theorem brand_slot_link:
  assumes "Watermarks cfg (store j b c) d tr = Inr r" and "brandWatermark r \<noteq> None"
  shows "(truthy (BRAND_WATERMARK_LINK cfg) \<longrightarrow>
            brandWatermarkLink (Watermarks_constructor cfg) = BRAND_WATERMARK_LINK cfg \<and>
            brandWatermark r = Some (wrapped (BRAND_WATERMARK_LINK cfg) rightwatermark)) \<and>
         (\<not> truthy (BRAND_WATERMARK_LINK cfg) \<longrightarrow>
            \<not> truthy (brandWatermarkLink (Watermarks_constructor cfg)) \<and>
            brandWatermark r = Some rightwatermark) \<and>
         (BRAND_WATERMARK_LINK cfg = JStr [] \<longrightarrow>
            brandWatermarkLink (Watermarks_constructor cfg) = JStr [] \<and>
            brandWatermark r = Some rightwatermark) \<and>
         None \<noteq> Some rightwatermark \<and>
         None \<noteq> Some (wrapped (BRAND_WATERMARK_LINK cfg) rightwatermark) \<and>
         Some rightwatermark \<noteq> Some (wrapped (BRAND_WATERMARK_LINK cfg) rightwatermark)"
proof -
  have vis: "\<not> truthy (filmStripOnly cfg) \<and> truthy (SHOW_BRAND_WATERMARK cfg)"
    using assms(2)
    by (simp add: brandWatermark_store [OF assms(1)] renderBrandWatermark_constructor
        split: if_splits)
  show ?thesis
    using vis
    by (simp add: brandWatermark_store [OF assms(1)] renderBrandWatermark_constructor
        brandWatermarkLink_constructor)
qed

theorem brand_slot_link_witness:
  "(\<exists>r. Watermarks sample_config
          (store sample_jwt sample_branding sample_conference) JUndefined id = Inr r \<and>
        brandWatermark r \<noteq> None \<and>
        truthy (BRAND_WATERMARK_LINK sample_config) \<and>
        brandWatermark r = Some (wrapped (JStr ''https://brand.example'') rightwatermark)) \<and>
   (\<exists>r. Watermarks (sample_config\<lparr>BRAND_WATERMARK_LINK := JStr []\<rparr>)
          (store sample_jwt sample_branding sample_conference) JUndefined id = Inr r \<and>
        brandWatermark r \<noteq> None \<and>
        brandWatermark r = Some rightwatermark)"
proof -
  let ?cfg = "sample_config\<lparr>BRAND_WATERMARK_LINK := JStr []\<rparr>"
  obtain r1 where r1: "Watermarks sample_config
      (store sample_jwt sample_branding sample_conference) JUndefined id = Inr r1"
    using Watermarks_store_total by blast
  obtain r2 where r2: "Watermarks ?cfg
      (store sample_jwt sample_branding sample_conference) JUndefined id = Inr r2"
    using Watermarks_store_total by blast
  have v1: "brandWatermark r1 \<noteq> None"
    by (simp add: brandWatermark_store [OF r1] renderBrandWatermark_constructor sample_defs)
  have v2: "brandWatermark r2 \<noteq> None"
    by (simp add: brandWatermark_store [OF r2] renderBrandWatermark_constructor sample_defs)
  have l1: "truthy (BRAND_WATERMARK_LINK sample_config)"
    and l1': "BRAND_WATERMARK_LINK sample_config = JStr ''https://brand.example''"
    and l2: "BRAND_WATERMARK_LINK ?cfg = JStr []"
    by (simp_all add: sample_defs)
  have "brandWatermark r1 = Some (wrapped (JStr ''https://brand.example'') rightwatermark)"
    using brand_slot_link [OF r1 v1] l1 l1' by simp
  moreover have "brandWatermark r2 = Some rightwatermark"
    using brand_slot_link [OF r2 v2] l2 by simp
  ultimately show ?thesis
    using r1 r2 v1 v2 l1 by blast
qed

section \<open>Powered-by slot\<close>

text \<open>
  C5. The powered-by slot is rendered exactly when \<open>SHOW_POWERED_BY\<close> is set; when it is
  rendered, it links to the constant \<open>http://jitsi.org\<close>. Nothing else of the
  configuration, no branding input and no session input changes it.
\<close>

theorem powered_by_slot:
  "\<exists>r. Watermarks cfg (store j b c) d tr = Inr r \<and>
     ((poweredBy r \<noteq> None) = truthy (SHOW_POWERED_BY cfg)) \<and>
     (truthy (SHOW_POWERED_BY cfg) \<longrightarrow>
        poweredBy r =
          Some (Anchor (Some ''poweredby'') (JStr ''http://jitsi.org'') ''_new''
                  [Span [Text (tr ''poweredby''), Text '' jitsi.org'']])) \<and>
     (\<forall>cfg' j' b' c' d'.
        truthy (SHOW_POWERED_BY cfg') = truthy (SHOW_POWERED_BY cfg) \<longrightarrow>
        (\<exists>r'. Watermarks cfg' (store j' b' c') d' tr = Inr r' \<and> poweredBy r' = poweredBy r))"
proof -
  obtain r where r: "Watermarks cfg (store j b c) d tr = Inr r"
    using Watermarks_store_total by blast
  have indep: "\<exists>r'. Watermarks cfg' (store j' b' c') d' tr = Inr r' \<and>
      poweredBy r' = poweredBy r"
    if "truthy (SHOW_POWERED_BY cfg') = truthy (SHOW_POWERED_BY cfg)" for cfg' j' b' c' d'
  proof -
    obtain r' where r': "Watermarks cfg' (store j' b' c') d' tr = Inr r'"
      using Watermarks_store_total by blast
    have "poweredBy r' = poweredBy r"
      using that by (simp add: poweredBy_store [OF r] poweredBy_store [OF r'])
    with r' show ?thesis by blast
  qed
  have "(poweredBy r \<noteq> None) = truthy (SHOW_POWERED_BY cfg)"
    by (simp add: poweredBy_store [OF r])
  moreover have "truthy (SHOW_POWERED_BY cfg) \<longrightarrow>
        poweredBy r =
          Some (Anchor (Some ''poweredby'') (JStr ''http://jitsi.org'') ''_new''
                  [Span [Text (tr ''poweredby''), Text '' jitsi.org'']])"
    by (simp add: poweredBy_store [OF r])
  ultimately show ?thesis
    using r indep by blast
qed

theorem powered_by_slot_witness:
  "\<exists>r. Watermarks sample_config
         (store sample_jwt sample_branding sample_conference) JUndefined id = Inr r \<and>
       truthy (SHOW_POWERED_BY sample_config) \<and>
       poweredBy r =
         Some (Anchor (Some ''poweredby'') (JStr ''http://jitsi.org'') ''_new''
                 [Span [Text ''poweredby'', Text '' jitsi.org'']])"
proof -
  have s: "truthy (SHOW_POWERED_BY sample_config)"
    by (simp add: sample_defs)
  from powered_by_slot [of sample_config sample_jwt sample_branding sample_conference
      JUndefined id]
  obtain r where "Watermarks sample_config
         (store sample_jwt sample_branding sample_conference) JUndefined id = Inr r"
    and "truthy (SHOW_POWERED_BY sample_config) \<longrightarrow>
        poweredBy r =
          Some (Anchor (Some ''poweredby'') (JStr ''http://jitsi.org'') ''_new''
                  [Span [Text (id ''poweredby''), Text '' jitsi.org'']])"
    by blast
  with s show ?thesis by simp
qed

section \<open>Failed customization\<close>

text \<open>
  C6. With \<open>customizationFailed\<close> true the component renders what it renders from the
  same input with \<open>customizationReady\<close> false instead (whether \<open>customizationFailed\<close> is
  then left as it was or reset, \<open>v\<close> below). In both, the static path of the product
  slot is off: the product slot is rendered exactly when no room is active, whatever the
  other flags are. \<open>customizationFailed\<close> touches nothing but the visibility of the
  product slot: the brand and powered-by slots never change with it, and when the
  product slot's visibility does not change, nothing changes.
\<close>

theorem customizationFailed_as_not_ready:
  "Watermarks cfg (store j (b\<lparr>customizationFailed := JBool True\<rparr>) c) d tr =
     Watermarks cfg
       (store j (b\<lparr>customizationReady := JBool False, customizationFailed := v\<rparr>) c) d tr \<and>
   (\<forall>w. \<exists>r r'. Watermarks cfg (store j (b\<lparr>customizationFailed := w\<rparr>) c) d tr = Inr r \<and>
      Watermarks cfg (store j b c) d tr = Inr r' \<and>
      brandWatermark r = brandWatermark r' \<and>
      poweredBy r = poweredBy r' \<and>
      ((jitsiWatermark r = None) = (jitsiWatermark r' = None) \<longrightarrow> r = r')) \<and>
   (\<exists>r. Watermarks cfg (store j (b\<lparr>customizationFailed := JBool True\<rparr>) c) d tr = Inr r \<and>
      (jitsiWatermark r \<noteq> None) = (\<not> truthy (room c))) \<and>
   (\<exists>r. Watermarks cfg
          (store j (b\<lparr>customizationReady := JBool False, customizationFailed := v\<rparr>) c) d tr =
          Inr r \<and>
      (jitsiWatermark r \<noteq> None) = (\<not> truthy (room c)))"
proof -
  have a: "showJitsiWatermark cfg j (b\<lparr>customizationFailed := JBool True\<rparr>) c =
      JBool (\<not> truthy (room c))"
    by (rule showJitsiWatermark_customization_not_ok) simp
  have b: "showJitsiWatermark cfg j
      (b\<lparr>customizationReady := JBool False, customizationFailed := v\<rparr>) c =
      JBool (\<not> truthy (room c))"
    by (rule showJitsiWatermark_customization_not_ok) simp
  have first: "Watermarks cfg (store j (b\<lparr>customizationFailed := JBool True\<rparr>) c) d tr =
     Watermarks cfg
       (store j (b\<lparr>customizationReady := JBool False, customizationFailed := v\<rparr>) c) d tr"
    by (simp add: Watermarks_store_explicit a b)
  have second: "\<exists>r r'. Watermarks cfg (store j (b\<lparr>customizationFailed := w\<rparr>) c) d tr = Inr r \<and>
      Watermarks cfg (store j b c) d tr = Inr r' \<and>
      brandWatermark r = brandWatermark r' \<and>
      poweredBy r = poweredBy r' \<and>
      ((jitsiWatermark r = None) = (jitsiWatermark r' = None) \<longrightarrow> r = r')" for w
  proof -
    let ?b = "b\<lparr>customizationFailed := w\<rparr>"
    obtain r where r: "Watermarks cfg (store j ?b c) d tr = Inr r"
      using Watermarks_store_total by blast
    obtain r' where r': "Watermarks cfg (store j b c) d tr = Inr r'"
      using Watermarks_store_total by blast
    have br: "brandWatermark r = brandWatermark r'"
      by (simp add: brandWatermark_store [OF r] brandWatermark_store [OF r'])
    have pb: "poweredBy r = poweredBy r'"
      by (simp add: poweredBy_store [OF r] poweredBy_store [OF r'])
    have jw: "jitsiWatermark r = jitsiWatermark r'"
      if "(jitsiWatermark r = None) = (jitsiWatermark r' = None)"
    proof -
      have "truthy (showJitsiWatermark cfg j ?b c) = truthy (showJitsiWatermark cfg j b c)"
        using that by (simp add: jitsiWatermark_None_iff [OF r] jitsiWatermark_None_iff [OF r'])
      then show ?thesis
        by (simp add: jitsiWatermark_store [OF r] jitsiWatermark_store [OF r'])
    qed
    have "(jitsiWatermark r = None) = (jitsiWatermark r' = None) \<longrightarrow> r = r'"
      using br pb jw by (cases r, cases r') simp
    with r r' br pb show ?thesis by blast
  qed
  have third: "\<exists>r. Watermarks cfg (store j (b\<lparr>customizationFailed := JBool True\<rparr>) c) d tr =
      Inr r \<and> (jitsiWatermark r \<noteq> None) = (\<not> truthy (room c))"
  proof -
    obtain r where r: "Watermarks cfg (store j (b\<lparr>customizationFailed := JBool True\<rparr>) c) d tr =
        Inr r"
      using Watermarks_store_total by blast
    have "(jitsiWatermark r \<noteq> None) = (\<not> truthy (room c))"
      by (simp add: jitsiWatermark_None_iff [OF r] a)
    then show ?thesis
      by (intro exI [of _ r] conjI r)
  qed
  have fourth: "\<exists>r. Watermarks cfg
          (store j (b\<lparr>customizationReady := JBool False, customizationFailed := v\<rparr>) c) d tr =
          Inr r \<and>
      (jitsiWatermark r \<noteq> None) = (\<not> truthy (room c))"
  proof -
    obtain r where r: "Watermarks cfg
        (store j (b\<lparr>customizationReady := JBool False, customizationFailed := v\<rparr>) c) d tr =
        Inr r"
      using Watermarks_store_total by blast
    have "(jitsiWatermark r \<noteq> None) = (\<not> truthy (room c))"
      by (simp add: jitsiWatermark_None_iff [OF r] b)
    then show ?thesis
      by (intro exI [of _ r] conjI r)
  qed
  show ?thesis
    by (intro conjI allI first second third fourth)
qed

theorem customizationFailed_as_not_ready_witness:
  "Watermarks sample_config
     (store sample_jwt (sample_branding\<lparr>customizationFailed := JBool True\<rparr>) sample_conference)
     JUndefined id =
   Watermarks sample_config
     (store sample_jwt (sample_branding\<lparr>customizationReady := JBool False\<rparr>) sample_conference)
     JUndefined id \<and>
   truthy (room sample_conference) \<and>
   truthy (SHOW_JITSI_WATERMARK sample_config) \<and>
   (\<exists>r. Watermarks sample_config
          (store sample_jwt (sample_branding\<lparr>customizationFailed := JBool True\<rparr>)
             sample_conference)
          JUndefined id = Inr r \<and>
        jitsiWatermark r = None)"
proof -
  note inst = customizationFailed_as_not_ready [of sample_config sample_jwt sample_branding
      sample_conference JUndefined id "JBool False"]
  have upd: "sample_branding\<lparr>customizationReady := JBool False,
      customizationFailed := JBool False\<rparr> =
      sample_branding\<lparr>customizationReady := JBool False\<rparr>"
    by (simp add: sample_defs)
  have eq: "Watermarks sample_config
     (store sample_jwt (sample_branding\<lparr>customizationFailed := JBool True\<rparr>) sample_conference)
     JUndefined id =
   Watermarks sample_config
     (store sample_jwt (sample_branding\<lparr>customizationReady := JBool False\<rparr>) sample_conference)
     JUndefined id"
    using conjunct1 [OF inst] by (simp only: upd)
  have ro: "truthy (room sample_conference)"
    and sh: "truthy (SHOW_JITSI_WATERMARK sample_config)"
    by (simp_all add: sample_defs)
  from conjunct1 [OF conjunct2 [OF conjunct2 [OF inst]]]
  obtain r where r: "Watermarks sample_config
          (store sample_jwt (sample_branding\<lparr>customizationFailed := JBool True\<rparr>)
             sample_conference)
          JUndefined id = Inr r"
    and v: "(jitsiWatermark r \<noteq> None) = (\<not> truthy (room sample_conference))"
    by (elim exE conjE)
  have "jitsiWatermark r = None"
    using v ro by simp
  then have "\<exists>r. Watermarks sample_config
          (store sample_jwt (sample_branding\<lparr>customizationFailed := JBool True\<rparr>)
             sample_conference)
          JUndefined id = Inr r \<and>
        jitsiWatermark r = None"
    by (intro exI [of _ r] conjI r)
  with eq ro sh show ?thesis
    by (intro conjI)
qed

section \<open>The three states of a slot\<close>

text \<open>
  C7, as the component has it. For every input each of the three slots is in exactly
  one of the states not rendered, rendered without a link, rendered with a non-empty
  link. When the brand slot is not rendered, the link kept in the component's state is
  the empty string. The product slot keeps no link of its own: the prop
  \<open>_customLogoLink\<close> is \<open>logoClickUrl\<close> whatever the visibility, and the renderer does not
  read it when the slot is not rendered. The powered-by slot has no link of its own to
  keep either: whenever it is rendered, it is the link to the constant
  \<open>http://jitsi.org\<close>.
\<close>

theorem slot_states:
  "\<exists>r sp. Watermarks cfg (store j b c) d tr = Inr r \<and>
     mapStateToProps cfg (store j b c) = Inr sp \<and>
     exactly_one (not_visible (jitsiWatermark r)) (visible_no_link (jitsiWatermark r))
       (visible_with_link (jitsiWatermark r)) \<and>
     exactly_one (not_visible (brandWatermark r)) (visible_no_link (brandWatermark r))
       (visible_with_link (brandWatermark r)) \<and>
     exactly_one (not_visible (poweredBy r)) (visible_no_link (poweredBy r))
       (visible_with_link (poweredBy r)) \<and>
     \<not> visible_no_link (poweredBy r) \<and>
     (\<not> not_visible (poweredBy r) \<longrightarrow>
        poweredBy r =
          Some (Anchor (Some ''poweredby'') (JStr ''http://jitsi.org'') ''_new''
                  [Span [Text (tr ''poweredby''), Text '' jitsi.org'']])) \<and>
     (not_visible (brandWatermark r) \<longrightarrow>
        brandWatermarkLink (Watermarks_constructor cfg) = JStr []) \<and>
     not_visible (jitsiWatermark r) = (\<not> truthy (p_showJitsiWaterMark sp)) \<and>
     p_customLogoLink sp = logoClickUrl b"
proof -
  obtain r where r: "Watermarks cfg (store j b c) d tr = Inr r"
    using Watermarks_store_total by blast
  let ?sp = "\<lparr>p_customLogoLink = logoClickUrl b,
          p_customLogoUrl = logoImageUrl b,
          p_useDynamicBrandingData = useDynamicBrandingData b,
          p_showJitsiWaterMark = showJitsiWatermark cfg j b c\<rparr>"
  have sp: "mapStateToProps cfg (store j b c) = Inr ?sp"
    by (rule mapStateToProps_slices) simp_all
  have jw: "exactly_one (not_visible (jitsiWatermark r)) (visible_no_link (jitsiWatermark r))
       (visible_with_link (jitsiWatermark r))"
    by (simp add: jitsiWatermark_store [OF r] exactly_one_def)
  have bw: "exactly_one (not_visible (brandWatermark r)) (visible_no_link (brandWatermark r))
       (visible_with_link (brandWatermark r))"
    by (simp add: brandWatermark_store [OF r] renderBrandWatermark_constructor exactly_one_def)
  have pw: "exactly_one (not_visible (poweredBy r)) (visible_no_link (poweredBy r))
       (visible_with_link (poweredBy r))"
    by (simp add: poweredBy_store [OF r] exactly_one_def)
  have pn: "\<not> visible_no_link (poweredBy r)"
    by (simp add: poweredBy_store [OF r])
  have pc: "\<not> not_visible (poweredBy r) \<longrightarrow>
        poweredBy r =
          Some (Anchor (Some ''poweredby'') (JStr ''http://jitsi.org'') ''_new''
                  [Span [Text (tr ''poweredby''), Text '' jitsi.org'']])"
    by (simp add: poweredBy_store [OF r])
  have bl: "not_visible (brandWatermark r) \<longrightarrow>
        brandWatermarkLink (Watermarks_constructor cfg) = JStr []"
    by (simp add: brandWatermark_store [OF r] renderBrandWatermark_constructor
        brandWatermarkLink_constructor)
  have nv: "not_visible (jitsiWatermark r) = (\<not> truthy (p_showJitsiWaterMark ?sp))"
    by (simp add: jitsiWatermark_store [OF r])
  have "p_customLogoLink ?sp = logoClickUrl b"
    by simp
  then show ?thesis
    by (intro exI [of _ r] exI [of _ ?sp] conjI r sp jw bw pw pn pc bl nv)
qed

theorem slot_states_witness:
  "\<exists>r sp. Watermarks (sample_config\<lparr>SHOW_BRAND_WATERMARK := JBool False\<rparr>)
       (store sample_jwt sample_branding sample_conference) JUndefined id = Inr r \<and>
     mapStateToProps (sample_config\<lparr>SHOW_BRAND_WATERMARK := JBool False\<rparr>)
       (store sample_jwt sample_branding sample_conference) = Inr sp \<and>
     not_visible (brandWatermark r) \<and>
     brandWatermarkLink
       (Watermarks_constructor (sample_config\<lparr>SHOW_BRAND_WATERMARK := JBool False\<rparr>)) =
       JStr [] \<and>
     visible_with_link (jitsiWatermark r) \<and>
     visible_with_link (poweredBy r)"
proof -
  let ?cfg = "sample_config\<lparr>SHOW_BRAND_WATERMARK := JBool False\<rparr>"
  from slot_states [of ?cfg sample_jwt sample_branding sample_conference JUndefined id]
  obtain r sp where r: "Watermarks ?cfg
       (store sample_jwt sample_branding sample_conference) JUndefined id = Inr r"
    and sp: "mapStateToProps ?cfg (store sample_jwt sample_branding sample_conference) = Inr sp"
    and bl: "not_visible (brandWatermark r) \<longrightarrow>
        brandWatermarkLink (Watermarks_constructor ?cfg) = JStr []"
    by blast
  have nb: "not_visible (brandWatermark r)"
    by (simp add: brandWatermark_store [OF r] renderBrandWatermark_constructor sample_defs)
  have vj: "visible_with_link (jitsiWatermark r)"
    by (simp add: jitsiWatermark_store [OF r] truthy_showJitsiWatermark sample_defs)
  have vp: "visible_with_link (poweredBy r)"
    by (simp add: poweredBy_store [OF r] sample_defs)
  from r sp bl nb vj vp show ?thesis
    by blast
qed

text \<open>
  The claim as the specification states it asks for an empty link beside every slot that
  is not visible. The props of the product slot do not have it: in a room, with the
  customization not ready, \<open>_showJitsiWaterMark\<close> is false while \<open>_customLogoLink\<close>
  still is the branding's \<open>logoClickUrl\<close>.
\<close>

theorem product_link_kept_counterexample:
  "mapStateToProps sample_config
     (store sample_jwt (sample_branding\<lparr>customizationReady := JBool False\<rparr>)
        sample_conference) =
     Inr \<lparr>p_customLogoLink = JStr ''https://example.com'',
          p_customLogoUrl = JStr ''https://x/logo.png'',
          p_useDynamicBrandingData = JBool True,
          p_showJitsiWaterMark = JBool False\<rparr> \<and>
   Watermarks sample_config
     (store sample_jwt (sample_branding\<lparr>customizationReady := JBool False\<rparr>)
        sample_conference) JUndefined id =
     Inr \<lparr>jitsiWatermark = None,
          brandWatermark = Some (wrapped (JStr ''https://brand.example'') rightwatermark),
          poweredBy = Some (poweredby_link id)\<rparr>"
proof -
  let ?b = "sample_branding\<lparr>customizationReady := JBool False\<rparr>"
  have s: "showJitsiWatermark sample_config sample_jwt ?b sample_conference = JBool False"
    by (simp add: showJitsiWatermark_customization_not_ok sample_defs)
  have "mapStateToProps sample_config (store sample_jwt ?b sample_conference) =
     Inr \<lparr>p_customLogoLink = JStr ''https://example.com'',
          p_customLogoUrl = JStr ''https://x/logo.png'',
          p_useDynamicBrandingData = JBool True,
          p_showJitsiWaterMark = JBool False\<rparr>"
    by (simp add: mapStateToProps_def s) (simp add: sample_defs)
  moreover have "Watermarks sample_config (store sample_jwt ?b sample_conference)
      JUndefined id =
     Inr \<lparr>jitsiWatermark = None,
          brandWatermark = Some (wrapped (JStr ''https://brand.example'') rightwatermark),
          poweredBy = Some (poweredby_link id)\<rparr>"
    by (simp add: Watermarks_store_explicit s renderJitsiWatermark_cases
        renderBrandWatermark_constructor) (simp add: sample_defs)
  ultimately show ?thesis by simp
qed

section \<open>Determinism\<close>




section \<open>Absent fields\<close>

text \<open>
  C9, as the component has it. The component renders and does not throw exactly when
  the store holds the three slices it reads (jwt, dynamic branding and conference),
  whatever the values of their fields; when one of the slices is itself missing,
  destructuring it throws a \<open>TypeError\<close>. A flag of the
  branding that is absent (\<open>undefined\<close> or \<open>null\<close>) is treated as false, an absent
  \<open>logoClickUrl\<close> as the empty link (the badge is unwrapped), and an absent default logo
  URL of the caller falls back to \<open>DEFAULT_LOGO_URL\<close>. An absent \<open>logoImageUrl\<close> is not
  treated as falsy: with dynamic branding in use the product slot is rendered as it
  would be otherwise, with the absent value written into the background image.
\<close>

theorem absent_fields:
  assumes "absent v"
  shows "(\<exists>r. Watermarks cfg (store j b c) d tr = Inr r) \<and>
    (\<exists>r. Watermarks cfg s d tr = Inr r) =
      (features_base_jwt s \<noteq> None \<and> features_dynamic_branding s \<noteq> None
         \<and> features_base_conference s \<noteq> None) \<and>
    (features_base_jwt s = None \<or> features_dynamic_branding s = None
       \<or> features_base_conference s = None \<longrightarrow>
     Watermarks cfg s d tr = Inl TypeError) \<and>
    Watermarks cfg (store j (b\<lparr>customizationReady := v\<rparr>) c) d tr =
      Watermarks cfg (store j (b\<lparr>customizationReady := JBool False\<rparr>) c) d tr \<and>
    Watermarks cfg (store j (b\<lparr>customizationFailed := v\<rparr>) c) d tr =
      Watermarks cfg (store j (b\<lparr>customizationFailed := JBool False\<rparr>) c) d tr \<and>
    Watermarks cfg (store j (b\<lparr>useDynamicBrandingData := v\<rparr>) c) d tr =
      Watermarks cfg (store j (b\<lparr>useDynamicBrandingData := JBool False\<rparr>) c) d tr \<and>
    Watermarks cfg (store j (b\<lparr>logoClickUrl := v\<rparr>) c) d tr =
      Watermarks cfg (store j (b\<lparr>logoClickUrl := JStr []\<rparr>) c) d tr \<and>
    Watermarks cfg (store j b c) v tr = Watermarks cfg (store j b c) (JStr []) tr \<and>
    (\<exists>r. Watermarks cfg (store j (b\<lparr>logoClickUrl := v\<rparr>) c) d tr = Inr r \<and>
       (truthy (useDynamicBrandingData b) \<longrightarrow> \<not> visible_with_link (jitsiWatermark r))) \<and>
    (\<exists>r. Watermarks cfg (store j b c) v tr = Inr r \<and>
       (jitsiWatermark r \<noteq> None \<and> \<not> truthy (useDynamicBrandingData b) \<longrightarrow>
          jitsiWatermark r =
            (if truthy (JITSI_WATERMARK_LINK cfg)
             then Some (wrapped (JITSI_WATERMARK_LINK cfg)
                          (leftwatermark (''url('' @ toString (DEFAULT_LOGO_URL cfg) @ '')'')))
             else Some (leftwatermark (''url('' @ toString (DEFAULT_LOGO_URL cfg) @ '')''))))) \<and>
    (\<exists>r. Watermarks cfg (store j (b\<lparr>logoImageUrl := v\<rparr>) c) d tr = Inr r \<and>
       (jitsiWatermark r = None) = (\<not> truthy (showJitsiWatermark cfg j b c)) \<and>
       (jitsiWatermark r \<noteq> None \<and> truthy (useDynamicBrandingData b) \<longrightarrow>
          jitsiWatermark r =
            (if truthy (logoClickUrl b)
             then Some (wrapped (logoClickUrl b)
                          (leftwatermark (''url('' @ toString v @ '')'')))
             else Some (leftwatermark (''url('' @ toString v @ '')'')))))"
proof -
  note falsy = absent_falsy [OF assms]
  have total: "\<exists>r. Watermarks cfg (store j b c) d tr = Inr r"
    by (rule Watermarks_store_total)
  have slices: "(\<exists>r. Watermarks cfg s d tr = Inr r) =
      (features_base_jwt s \<noteq> None \<and> features_dynamic_branding s \<noteq> None
         \<and> features_base_conference s \<noteq> None)"
    by (rule Watermarks_total_iff)
  have throws: "features_base_jwt s = None \<or> features_dynamic_branding s = None
       \<or> features_base_conference s = None \<longrightarrow>
     Watermarks cfg s d tr = Inl TypeError"
    by (rule impI) (rule Watermarks_missing_slice)
  have ready: "Watermarks cfg (store j (b\<lparr>customizationReady := v\<rparr>) c) d tr =
      Watermarks cfg (store j (b\<lparr>customizationReady := JBool False\<rparr>) c) d tr"
    using falsy
    by (simp add: Watermarks_store_explicit showJitsiWatermark_customization_not_ok)
  have failed: "Watermarks cfg (store j (b\<lparr>customizationFailed := v\<rparr>) c) d tr =
      Watermarks cfg (store j (b\<lparr>customizationFailed := JBool False\<rparr>) c) d tr"
    by (simp add: Watermarks_store_explicit showJitsiWatermark_failed_absent [OF assms])
  have same_dyn: "showJitsiWatermark cfg j (b\<lparr>useDynamicBrandingData := w\<rparr>) c =
      showJitsiWatermark cfg j b c" for w
    by (simp add: showJitsiWatermark_def)
  have dyn: "Watermarks cfg (store j (b\<lparr>useDynamicBrandingData := v\<rparr>) c) d tr =
      Watermarks cfg (store j (b\<lparr>useDynamicBrandingData := JBool False\<rparr>) c) d tr"
    using falsy
    by (simp add: Watermarks_store_explicit same_dyn renderJitsiWatermark_cases)
  have same_click: "showJitsiWatermark cfg j (b\<lparr>logoClickUrl := w\<rparr>) c =
      showJitsiWatermark cfg j b c" for w
    by (simp add: showJitsiWatermark_def)
  have click: "Watermarks cfg (store j (b\<lparr>logoClickUrl := v\<rparr>) c) d tr =
      Watermarks cfg (store j (b\<lparr>logoClickUrl := JStr []\<rparr>) c) d tr"
    using falsy
    by (simp add: Watermarks_store_explicit same_click renderJitsiWatermark_cases)
  have dflt: "Watermarks cfg (store j b c) v tr = Watermarks cfg (store j b c) (JStr []) tr"
    by (simp add: Watermarks_store_explicit renderJitsiWatermark_cases
        js_or_absent [OF assms] js_or_falsy)
  have unwrapped: "\<exists>r. Watermarks cfg (store j (b\<lparr>logoClickUrl := v\<rparr>) c) d tr = Inr r \<and>
       (truthy (useDynamicBrandingData b) \<longrightarrow> \<not> visible_with_link (jitsiWatermark r))"
  proof -
    obtain r where r: "Watermarks cfg (store j (b\<lparr>logoClickUrl := v\<rparr>) c) d tr = Inr r"
      using Watermarks_store_total by blast
    have "truthy (useDynamicBrandingData b) \<longrightarrow> \<not> visible_with_link (jitsiWatermark r)"
      using falsy by (simp add: jitsiWatermark_store [OF r])
    then show ?thesis
      by (intro exI [of _ r] conjI r)
  qed
  have fallback: "\<exists>r. Watermarks cfg (store j b c) v tr = Inr r \<and>
       (jitsiWatermark r \<noteq> None \<and> \<not> truthy (useDynamicBrandingData b) \<longrightarrow>
          jitsiWatermark r =
            (if truthy (JITSI_WATERMARK_LINK cfg)
             then Some (wrapped (JITSI_WATERMARK_LINK cfg)
                          (leftwatermark (''url('' @ toString (DEFAULT_LOGO_URL cfg) @ '')'')))
             else Some (leftwatermark (''url('' @ toString (DEFAULT_LOGO_URL cfg) @ '')''))))"
  proof -
    obtain r where r: "Watermarks cfg (store j b c) v tr = Inr r"
      using Watermarks_store_total by blast
    have "jitsiWatermark r \<noteq> None \<and> \<not> truthy (useDynamicBrandingData b) \<longrightarrow>
          jitsiWatermark r =
            (if truthy (JITSI_WATERMARK_LINK cfg)
             then Some (wrapped (JITSI_WATERMARK_LINK cfg)
                          (leftwatermark (''url('' @ toString (DEFAULT_LOGO_URL cfg) @ '')'')))
             else Some (leftwatermark (''url('' @ toString (DEFAULT_LOGO_URL cfg) @ '')'')))"
      by (simp add: jitsiWatermark_store [OF r] js_or_absent [OF assms])
    then show ?thesis
      by (intro exI [of _ r] conjI r)
  qed
  have same_image: "showJitsiWatermark cfg j (b\<lparr>logoImageUrl := w\<rparr>) c =
      showJitsiWatermark cfg j b c" for w
    by (simp add: showJitsiWatermark_def)
  have image: "\<exists>r. Watermarks cfg (store j (b\<lparr>logoImageUrl := v\<rparr>) c) d tr = Inr r \<and>
       (jitsiWatermark r = None) = (\<not> truthy (showJitsiWatermark cfg j b c)) \<and>
       (jitsiWatermark r \<noteq> None \<and> truthy (useDynamicBrandingData b) \<longrightarrow>
          jitsiWatermark r =
            (if truthy (logoClickUrl b)
             then Some (wrapped (logoClickUrl b)
                          (leftwatermark (''url('' @ toString v @ '')'')))
             else Some (leftwatermark (''url('' @ toString v @ '')''))))"
  proof -
    obtain r where r: "Watermarks cfg (store j (b\<lparr>logoImageUrl := v\<rparr>) c) d tr = Inr r"
      using Watermarks_store_total by blast
    have one: "(jitsiWatermark r = None) = (\<not> truthy (showJitsiWatermark cfg j b c))"
      by (simp add: jitsiWatermark_None_iff [OF r] same_image)
    have two: "jitsiWatermark r \<noteq> None \<and> truthy (useDynamicBrandingData b) \<longrightarrow>
          jitsiWatermark r =
            (if truthy (logoClickUrl b)
             then Some (wrapped (logoClickUrl b)
                          (leftwatermark (''url('' @ toString v @ '')'')))
             else Some (leftwatermark (''url('' @ toString v @ '')'')))"
      by (simp add: jitsiWatermark_store [OF r])
    show ?thesis
      by (rule exI [of _ r]) (intro conjI r one two)
  qed
  show ?thesis
    by (intro conjI total slices throws ready failed dyn click dflt unwrapped fallback image)
qed

theorem absent_fields_witness:
  "absent JUndefined \<and>
   Watermarks sample_config
     (store sample_jwt (sample_branding\<lparr>logoClickUrl := JUndefined\<rparr>) sample_conference)
     JUndefined id =
   Watermarks sample_config
     (store sample_jwt (sample_branding\<lparr>logoClickUrl := JStr []\<rparr>) sample_conference)
     JUndefined id \<and>
   Watermarks sample_config
     (store sample_jwt (sample_branding\<lparr>customizationReady := JUndefined\<rparr>) sample_conference)
     JUndefined id =
   Watermarks sample_config
     (store sample_jwt (sample_branding\<lparr>customizationReady := JBool False\<rparr>) sample_conference)
     JUndefined id \<and>
   features_dynamic_branding
     \<lparr>features_base_jwt = Some sample_jwt, features_dynamic_branding = None,
      features_base_conference = Some sample_conference\<rparr> = None \<and>
   Watermarks sample_config
     \<lparr>features_base_jwt = Some sample_jwt, features_dynamic_branding = None,
      features_base_conference = Some sample_conference\<rparr> JUndefined id = Inl TypeError"
proof -
  let ?s = "\<lparr>features_base_jwt = Some sample_jwt, features_dynamic_branding = None,
      features_base_conference = Some sample_conference\<rparr>"
  have h: "absent JUndefined"
    by simp
  have m: "features_dynamic_branding ?s = None"
    by simp
  note inst = absent_fields [OF h, where cfg = sample_config and j = sample_jwt
      and b = sample_branding and c = sample_conference and d = JUndefined and tr = id
      and s = ?s]
  have e: "Watermarks sample_config ?s JUndefined id = Inl TypeError"
    using inst m by (elim conjE) simp
  show ?thesis
    using h m e inst by (elim conjE) (intro conjI)
qed

text \<open>
  The claim as the specification states it has every absent field of the branding treated
  as falsy, ending in a slot that is not visible or a link that is empty. With dynamic
  branding in use and \<open>logoImageUrl\<close> undefined, the product slot is rendered, wrapped in
  its non-empty link, with the background image \<open>url(undefined)\<close>; the falsy string in
  its place gives another result. And the component does throw when the branding slice
  as a whole is missing from the store.
\<close>

theorem absent_logoImageUrl_counterexample:
  "Watermarks sample_config
     (store sample_jwt (sample_branding\<lparr>logoImageUrl := JUndefined\<rparr>) sample_conference)
     JUndefined id =
     Inr \<lparr>jitsiWatermark =
            Some (wrapped (JStr ''https://example.com'') (leftwatermark ''url(undefined)'')),
          brandWatermark = Some (wrapped (JStr ''https://brand.example'') rightwatermark),
          poweredBy = Some (poweredby_link id)\<rparr> \<and>
   Watermarks sample_config
     (store sample_jwt (sample_branding\<lparr>logoImageUrl := JStr []\<rparr>) sample_conference)
     JUndefined id =
     Inr \<lparr>jitsiWatermark =
            Some (wrapped (JStr ''https://example.com'') (leftwatermark ''url()'')),
          brandWatermark = Some (wrapped (JStr ''https://brand.example'') rightwatermark),
          poweredBy = Some (poweredby_link id)\<rparr> \<and>
   Watermarks sample_config
     \<lparr>features_base_jwt = Some sample_jwt, features_dynamic_branding = None,
      features_base_conference = Some sample_conference\<rparr> JUndefined id = Inl TypeError"
proof -
  have s: "truthy (showJitsiWatermark sample_config sample_jwt
      (sample_branding\<lparr>logoImageUrl := w\<rparr>) sample_conference)" for w
    by (simp add: truthy_showJitsiWatermark sample_defs)
  have "Watermarks sample_config
     (store sample_jwt (sample_branding\<lparr>logoImageUrl := JUndefined\<rparr>) sample_conference)
     JUndefined id =
     Inr \<lparr>jitsiWatermark =
            Some (wrapped (JStr ''https://example.com'') (leftwatermark ''url(undefined)'')),
          brandWatermark = Some (wrapped (JStr ''https://brand.example'') rightwatermark),
          poweredBy = Some (poweredby_link id)\<rparr>"
    by (simp add: Watermarks_store_explicit s renderJitsiWatermark_cases
        renderBrandWatermark_constructor) (simp add: sample_defs)
  moreover have "Watermarks sample_config
     (store sample_jwt (sample_branding\<lparr>logoImageUrl := JStr []\<rparr>) sample_conference)
     JUndefined id =
     Inr \<lparr>jitsiWatermark =
            Some (wrapped (JStr ''https://example.com'') (leftwatermark ''url()'')),
          brandWatermark = Some (wrapped (JStr ''https://brand.example'') rightwatermark),
          poweredBy = Some (poweredby_link id)\<rparr>"
    by (simp add: Watermarks_store_explicit s renderJitsiWatermark_cases
        renderBrandWatermark_constructor) (simp add: sample_defs)
  moreover have "Watermarks sample_config
     \<lparr>features_base_jwt = Some sample_jwt, features_dynamic_branding = None,
      features_base_conference = Some sample_conference\<rparr> JUndefined id = Inl TypeError"
    by (rule Watermarks_missing_slice) simp
  ultimately show ?thesis by simp
qed

end
